theory Spec2Isabelle
  imports Main "HOL-Library.Finite_Map"
begin

section \<open>Values of the metadata document\<close>

text \<open>
  The metadata document of \<^verbatim>\<open>datasette/app.py\<close> is a JSON document held as a Python
  object: \<^verbatim>\<open>None\<close>, booleans, integers, strings, lists and dicts with string keys
  (a float, which no scope of the document is, is left out). A dict is a finite map.
\<close>

datatype json =
    JNull
  | JBool bool
  | JInt int
  | JStr string
  | JList "json list"
  | JDict "(string, json) fmap"

text \<open>
  The Python exceptions the functions below can end in. \<open>Unmodelled\<close> stands for the one
  operation whose result has no counterpart in \<^typ>\<open>json\<close>: \<^verbatim>\<open>dict.update\<close> with a
  non-empty list, which Python reads as a sequence of key/value pairs with keys of any
  hashable type.
\<close>

datatype py_error =
  AssertionError | AttributeError | TypeError | ValueError | KeyError | Unmodelled

text \<open>Python truthiness, as \<^verbatim>\<open>x or {}\<close> tests it.\<close>

fun truthy :: "json \<Rightarrow> bool" where
  "truthy JNull = False"
| "truthy (JBool b) = b"
| "truthy (JInt n) = (n \<noteq> 0)"
| "truthy (JStr s) = (s \<noteq> [])"
| "truthy (JList xs) = (xs \<noteq> [])"
| "truthy (JDict m) = (m \<noteq> fmempty)"

definition or_empty :: "json \<Rightarrow> json" where
  \<comment> \<open>\<^verbatim>\<open>x or {}\<close>\<close>
  "or_empty x = (if truthy x then x else JDict fmempty)"

definition dict_get :: "(string, json) fmap \<Rightarrow> string \<Rightarrow> json" where
  \<comment> \<open>\<^verbatim>\<open>d.get(k)\<close> on a dict: a missing key gives \<^verbatim>\<open>None\<close>\<close>
  "dict_get m k = (case fmlookup m k of None \<Rightarrow> JNull | Some v \<Rightarrow> v)"

fun py_get :: "json \<Rightarrow> string \<Rightarrow> py_error + json" where
  \<comment> \<open>\<^verbatim>\<open>x.get(k)\<close>: only a dict has the method\<close>
  "py_get (JDict m) k = Inr (dict_get m k)"
| "py_get _ k = Inl AttributeError"

fun is_substring :: "string \<Rightarrow> string \<Rightarrow> bool" where
  "is_substring k [] = (k = [])"
| "is_substring k (c # cs) = (take (length k) (c # cs) = k \<or> is_substring k cs)"

fun py_in :: "string \<Rightarrow> json \<Rightarrow> py_error + bool" where
  \<comment> \<open>\<^verbatim>\<open>key in item\<close> for a string key\<close>
  "py_in k (JDict m) = Inr (fmlookup m k \<noteq> None)"
| "py_in k (JList xs) = Inr (JStr k \<in> set xs)"
| "py_in k (JStr s) = Inr (is_substring k s)"
| "py_in k _ = Inl TypeError"

fun py_getitem :: "json \<Rightarrow> string \<Rightarrow> py_error + json" where
  \<comment> \<open>\<^verbatim>\<open>item[key]\<close> for a string key\<close>
  "py_getitem (JDict m) k = (case fmlookup m k of None \<Rightarrow> Inl KeyError | Some v \<Rightarrow> Inr v)"
| "py_getitem _ k = Inl TypeError"

fun py_update :: "(string, json) fmap \<Rightarrow> json \<Rightarrow> py_error + (string, json) fmap" where
  \<comment> \<open>\<^verbatim>\<open>m.update(item)\<close>: the keys of \<open>item\<close> are added to \<open>m\<close>, replacing equal keys\<close>
  "py_update m (JDict d) = Inr (fmadd m d)"
| "py_update m (JStr s) = (if s = [] then Inr m else Inl ValueError)"
| "py_update m (JList xs) = (if xs = [] then Inr m else Inl Unmodelled)"
| "py_update m _ = Inl TypeError"

definition bind :: "'e + 'a \<Rightarrow> ('a \<Rightarrow> 'e + 'b) \<Rightarrow> 'e + 'b" where
  \<comment> \<open>sequencing: an exception of the first step ends the call\<close>
  "bind r f = (case r of Inl e \<Rightarrow> Inl e | Inr x \<Rightarrow> f x)"

section \<open>The database driver\<close>

text \<open>
  The \<^verbatim>\<open>sqlite3\<close> driver is outside the repository. A statement run on a connection
  gives a cursor: the rows it yields, in order, and the error (if any) the driver raises
  once these rows are used up, which is at \<^verbatim>\<open>cursor.execute\<close> when there are none.
  \<^verbatim>\<open>fetchmany(size)\<close> takes its size as a C \<^verbatim>\<open>int\<close>: a size outside the 32-bit signed
  range raises \<^verbatim>\<open>OverflowError\<close> before any row is read. Otherwise it returns the next
  \<open>size\<close> rows, or all the rows left when there are fewer; a \<open>size\<close> that is not positive
  never stops the driver's loop early. \<^verbatim>\<open>fetchall()\<close> returns every row.
\<close>

datatype driver_error =
  OperationalError "string list" | OverflowError | OtherDriverError string

datatype 'v params = Positional "'v list" | Named "(string \<times> 'v) list"

record 'v cursor =
  available :: "'v list list"
  failure :: "driver_error option"
  cursor_description :: "string list"

definition fetchall :: "'v cursor \<Rightarrow> driver_error + 'v list list" where
  "fetchall c = (case failure c of Some e \<Rightarrow> Inl e | None \<Rightarrow> Inr (available c))"

definition fetchmany :: "'v cursor \<Rightarrow> int \<Rightarrow> driver_error + 'v list list" where
  "fetchmany c n =
     (if n < - 2147483648 \<or> 2147483647 < n then Inl OverflowError
      else if 0 < n \<and> nat n \<le> length (available c) then Inr (take (nat n) (available c))
      else fetchall c)"

text \<open>
  A \<^verbatim>\<open>Database\<close> object (\<^verbatim>\<open>datasette/database.py\<close>, not part of the sources at hand),
  as far as \<^verbatim>\<open>app.py\<close> uses it: what its connection does with a statement under a time
  limit in milliseconds, the foreign keys of a table and the label column of a table.
\<close>

record foreign_key =
  fk_column :: string
  fk_other_table :: string
  fk_other_column :: string

record 'v database =
  conn :: "int \<Rightarrow> string \<Rightarrow> 'v params \<Rightarrow> 'v cursor"
  foreign_keys_for_table :: "string \<Rightarrow> foreign_key list"
  label_column_for_table :: "string \<Rightarrow> string option"

section \<open>The Datasette object\<close>

text \<open>
  The fields of \<^verbatim>\<open>Datasette\<close> that the functions below read. \<^verbatim>\<open>self._metadata\<close> is
  \<^verbatim>\<open>metadata or {}\<close>, a dict; the three integers come from the configuration.
\<close>

record 'v datasette =
  self_metadata :: "(string, json) fmap"
  self_max_returned_rows :: int
  self_sql_time_limit_ms :: int
  self_page_size :: int
  self_databases :: "string \<Rightarrow> 'v database option"

section \<open>Datasette.metadata\<close>

fun lookup_key :: "string \<Rightarrow> json list \<Rightarrow> py_error + json" where
  \<comment> \<open>\<^verbatim>\<open>for item in search_list: if key in item: return item[key]\<close>, then \<^verbatim>\<open>return None\<close>\<close>
  "lookup_key key [] = Inr JNull"
| "lookup_key key (item # rest) =
     bind (py_in key item) (\<lambda>found.
       if found then py_getitem item key else lookup_key key rest)"

fun merge_items :: "(string, json) fmap \<Rightarrow> json list \<Rightarrow> py_error + (string, json) fmap" where
  \<comment> \<open>\<^verbatim>\<open>for item in search_list: m.update(item)\<close>\<close>
  "merge_items m [] = Inr m"
| "merge_items m (item # rest) = bind (py_update m item) (\<lambda>m'. merge_items m' rest)"

definition search_list :: "'v datasette \<Rightarrow> string option \<Rightarrow> string option \<Rightarrow> bool
    \<Rightarrow> py_error + json list" where
  \<comment> \<open>lines 243 to 255: the scopes to search, innermost first\<close>
  "search_list self database table fallback =
     bind (py_get (JDict (self_metadata self)) ''databases'') (\<lambda>v.
       let databases = or_empty v in
       bind (case database of
               None \<Rightarrow> Inr []
             | Some d \<Rightarrow> bind (py_get databases d) (\<lambda>x. Inr [or_empty x])) (\<lambda>l1.
       bind (case table of
               None \<Rightarrow> Inr l1
             | Some t \<Rightarrow>
                 (case database of
                    None \<Rightarrow> Inl AssertionError
                  | Some d \<Rightarrow>
                      bind (py_get databases d) (\<lambda>x.
                      bind (py_get (or_empty x) ''tables'') (\<lambda>ts.
                      bind (py_get (or_empty ts) t) (\<lambda>tm.
                        Inr (or_empty tm # l1)))))) (\<lambda>l2.
       let l3 = l2 @ [JDict (self_metadata self)] in
       Inr (if \<not> fallback then take 1 l3 else l3))))"

definition metadata :: "'v datasette \<Rightarrow> string option \<Rightarrow> string option \<Rightarrow> string option \<Rightarrow> bool
    \<Rightarrow> py_error + json" where
  "metadata self key database table fallback =
     (if database = None \<and> table \<noteq> None then Inl AssertionError
      else
        bind (search_list self database table fallback) (\<lambda>items.
          case key of
            Some k \<Rightarrow> lookup_key k items
          | None \<Rightarrow> bind (merge_items fmempty items) (\<lambda>m. Inr (JDict m))))"

section \<open>Datasette.execute\<close>

datatype 'v exec_error =
    Python py_error
  | Raised driver_error
  | QueryInterrupted driver_error string "'v params option"

record 'v results =
  rows :: "'v list list"
  truncated :: bool
  description :: "string list"

definition params_or_empty :: "'v params option \<Rightarrow> 'v params" where
  \<comment> \<open>\<^verbatim>\<open>params or {}\<close>\<close>
  "params_or_empty params =
     (case params of
        None \<Rightarrow> Named []
      | Some (Positional []) \<Rightarrow> Named []
      | Some p \<Rightarrow> p)"

definition py_slice_to :: "'a list \<Rightarrow> int \<Rightarrow> 'a list" where
  \<comment> \<open>\<^verbatim>\<open>xs[:n]\<close>; a negative \<open>n\<close> counts from the end\<close>
  "py_slice_to xs n = (if 0 \<le> n then take (nat n) xs else take (length xs - nat (- n)) xs)"

definition time_limit_ms :: "'v datasette \<Rightarrow> int option \<Rightarrow> int" where
  \<comment> \<open>lines 497 to 499\<close>
  "time_limit_ms self custom_time_limit =
     (case custom_time_limit of
        None \<Rightarrow> self_sql_time_limit_ms self
      | Some c \<Rightarrow>
          if c \<noteq> 0 \<and> c < self_sql_time_limit_ms self then c else self_sql_time_limit_ms self)"

definition max_returned_rows :: "'v datasette \<Rightarrow> int \<Rightarrow> int" where
  \<comment> \<open>lines 505 to 507: the row cap after the adjustment\<close>
  "max_returned_rows self page_size =
     (if self_max_returned_rows self = page_size then self_max_returned_rows self + 1
      else self_max_returned_rows self)"

definition fetch_rows :: "'v datasette \<Rightarrow> 'v cursor \<Rightarrow> bool \<Rightarrow> int
    \<Rightarrow> driver_error + ('v list list \<times> bool)" where
  \<comment> \<open>lines 508 to 514, on the cursor of the statement\<close>
  "fetch_rows self cursor truncate' page_size =
     (if max_returned_rows self page_size \<noteq> 0 \<and> truncate' then
        bind (fetchmany cursor (max_returned_rows self page_size + 1)) (\<lambda>fetched.
          Inr (py_slice_to fetched (max_returned_rows self page_size),
               max_returned_rows self page_size < int (length fetched)))
      else bind (fetchall cursor) (\<lambda>fetched. Inr (fetched, False)))"

definition sql_operation_in_thread :: "'v datasette
    \<Rightarrow> (int \<Rightarrow> string \<Rightarrow> 'v params \<Rightarrow> 'v cursor)
    \<Rightarrow> string \<Rightarrow> 'v params option \<Rightarrow> bool \<Rightarrow> int option \<Rightarrow> int
    \<Rightarrow> 'v exec_error + 'v results" where
  \<comment> \<open>the diagnostic \<^verbatim>\<open>print\<close> before the re-raise has no effect on the result\<close>
  "sql_operation_in_thread self connection sql params truncate' custom_time_limit page_size =
     (let cursor = connection (time_limit_ms self custom_time_limit) sql (params_or_empty params)
      in case fetch_rows self cursor truncate' page_size of
           Inl (OperationalError args) \<Rightarrow>
             if args = [''interrupted'']
             then Inl (QueryInterrupted (OperationalError args) sql params)
             else Inl (Raised (OperationalError args))
         | Inl e \<Rightarrow> Inl (Raised e)
         | Inr (rs, trunc) \<Rightarrow>
             if truncate'
             then Inr \<lparr>rows = rs, truncated = trunc, description = cursor_description cursor\<rparr>
             else Inr \<lparr>rows = rs, truncated = False, description = cursor_description cursor\<rparr>)"

definition execute :: "'v datasette \<Rightarrow> string \<Rightarrow> string \<Rightarrow> 'v params option \<Rightarrow> bool
    \<Rightarrow> int option \<Rightarrow> int option \<Rightarrow> 'v exec_error + 'v results" where
  "execute self db_name sql params truncate' custom_time_limit page_size =
     (let page_size' =
            (case page_size of
               None \<Rightarrow> self_page_size self
             | Some p \<Rightarrow> if p \<noteq> 0 then p else self_page_size self)
      in case self_databases self db_name of
           None \<Rightarrow> Inl (Python KeyError)
         | Some db \<Rightarrow>
             sql_operation_in_thread self (conn db) sql params truncate' custom_time_limit
               page_size')"

section \<open>Datasette.expand\_foreign\_keys\<close>

fun join :: "string \<Rightarrow> string list \<Rightarrow> string" where
  "join sep [] = []"
| "join sep [x] = x"
| "join sep (x # y # ys) = x @ sep @ join sep (y # ys)"

definition label_sql :: "(string \<Rightarrow> string) \<Rightarrow> foreign_key \<Rightarrow> string \<Rightarrow> nat \<Rightarrow> string" where
  \<comment> \<open>lines 346 to 355; \<^verbatim>\<open>escape_sqlite\<close> (\<^verbatim>\<open>datasette/utils.py\<close>) is a parameter\<close>
  "label_sql escape_sqlite fk label_column n =
     [CHR 0x0A] @ replicate 12 (CHR '' '') @ ''select '' @ escape_sqlite (fk_other_column fk)
       @ '', '' @ escape_sqlite label_column
     @ [CHR 0x0A] @ replicate 12 (CHR '' '') @ ''from '' @ escape_sqlite (fk_other_table fk)
     @ [CHR 0x0A] @ replicate 12 (CHR '' '') @ ''where '' @ escape_sqlite (fk_other_column fk)
       @ '' in ('' @ join '', '' (replicate n ''?'') @ '')''
     @ [CHR 0x0A] @ replicate 8 (CHR '' '')"

fun label_rows :: "string \<Rightarrow> 'v list list \<Rightarrow> (string \<times> 'v \<rightharpoonup> 'v)
    \<Rightarrow> 'v exec_error + (string \<times> 'v \<rightharpoonup> 'v)" where
  \<comment> \<open>\<^verbatim>\<open>for id, value in results: labeled_fks[(fk["column"], id)] = value\<close>\<close>
  "label_rows col [] m = Inr m"
| "label_rows col ([i, value] # rest) m = label_rows col rest (m((col, i) \<mapsto> value))"
| "label_rows col (_ # rest) m = Inl (Python ValueError)"

definition expand_foreign_keys :: "'v datasette \<Rightarrow> ('v \<Rightarrow> 'v) \<Rightarrow> (string \<Rightarrow> string)
    \<Rightarrow> string \<Rightarrow> string \<Rightarrow> string \<Rightarrow> 'v list
    \<Rightarrow> 'v exec_error + (string \<times> 'v \<rightharpoonup> 'v)" where
  \<comment> \<open>\<open>str\<close> is Python's \<^verbatim>\<open>str\<close> on the values of the database; \<^verbatim>\<open>list(set(values))\<close>
      holds every distinct value once\<close>
  "expand_foreign_keys self str escape_sqlite database table column values =
     (case self_databases self database of
        None \<Rightarrow> Inl (Python KeyError)
      | Some db \<Rightarrow>
          (case filter (\<lambda>foreign_key. fk_column foreign_key = column)
                  (foreign_keys_for_table db table) of
             [] \<Rightarrow> Inr Map.empty
           | fk # _ \<Rightarrow>
               (case label_column_for_table db (fk_other_table fk) of
                  None \<Rightarrow> Inr (fold (\<lambda>value m. m((fk_column fk, value) \<mapsto> str value)) values Map.empty)
                | Some label_column \<Rightarrow>
                    if label_column = [] then
                      Inr (fold (\<lambda>value m. m((fk_column fk, value) \<mapsto> str value)) values Map.empty)
                    else
                      (case execute self database
                              (label_sql escape_sqlite fk label_column (length (remdups values)))
                              (Some (Positional (remdups values))) False None None of
                         Inl (QueryInterrupted e s p) \<Rightarrow> Inr Map.empty
                       | Inl err \<Rightarrow> Inl err
                       | Inr results \<Rightarrow> label_rows (fk_column fk) (rows results) Map.empty))))"

section \<open>The cascade as the specification words it\<close>

text \<open>
  The scopes of a well-formed metadata document are dicts; an entry that is missing or
  falsy stands for the empty dict.
\<close>

definition scope_of :: "json \<Rightarrow> (string, json) fmap option" where
  \<comment> \<open>the dict that \<^verbatim>\<open>v or {}\<close> is, when it is one\<close>
  "scope_of v = (if \<not> truthy v then Some fmempty else case v of JDict m \<Rightarrow> Some m | _ \<Rightarrow> None)"

fun first_defined :: "string \<Rightarrow> (string, json) fmap list \<Rightarrow> json" where
  \<comment> \<open>the specification's rule: the first scope that defines the key gives the value\<close>
  "first_defined key [] = JNull"
| "first_defined key (m # ms) =
     (case fmlookup m key of Some v \<Rightarrow> v | None \<Rightarrow> first_defined key ms)"

section \<open>Concrete instances\<close>

definition ex_limits :: "int datasette" where
  \<comment> \<open>the default configuration: no metadata, no databases\<close>
  "ex_limits = \<lparr>self_metadata = fmempty, self_max_returned_rows = 1000,
     self_sql_time_limit_ms = 1000, self_page_size = 100, self_databases = (\<lambda>name. None)\<rparr>"

definition numbered_rows :: "nat \<Rightarrow> int list list" where
  \<comment> \<open>the rows of \<^verbatim>\<open>select n from t\<close> on a table holding 0 to \<open>n - 1\<close>\<close>
  "numbered_rows n = map (\<lambda>i. [int i]) [0..<n]"

definition counting_db :: "nat \<Rightarrow> driver_error option \<Rightarrow> int database" where
  \<comment> \<open>a database whose statements yield \<open>n\<close> rows and then end, or fail with \<open>err\<close>\<close>
  "counting_db n err =
     \<lparr>conn = (\<lambda>limit sql params.
         \<lparr>available = numbered_rows n, failure = err, cursor_description = [''n'']\<rparr>),
      foreign_keys_for_table = (\<lambda>t. []),
      label_column_for_table = (\<lambda>t. None)\<rparr>"

definition ex_ten :: "nat \<Rightarrow> driver_error option \<Rightarrow> int datasette" where
  \<comment> \<open>\<^verbatim>\<open>max_returned_rows\<close> and \<^verbatim>\<open>default_page_size\<close> both 10, one database \<^verbatim>\<open>db\<close>\<close>
  "ex_ten n err = \<lparr>self_metadata = fmempty, self_max_returned_rows = 10,
     self_sql_time_limit_ms = 1000, self_page_size = 10,
     self_databases = (\<lambda>name. if name = ''db'' then Some (counting_db n err) else None)\<rparr>"

definition ex_table_md :: "(string, json) fmap" where
  "ex_table_md = fmupd ''source'' (JStr ''Table'') fmempty"

definition ex_tables :: "(string, json) fmap" where
  "ex_tables = fmupd ''t'' (JDict ex_table_md) fmempty"

definition ex_db_md :: "(string, json) fmap" where
  "ex_db_md = fmupd ''title'' (JStr ''DB'') (fmupd ''tables'' (JDict ex_tables) fmempty)"

definition ex_dbs :: "(string, json) fmap" where
  "ex_dbs = fmupd ''db'' (JDict ex_db_md) fmempty"

definition ex_titles :: "int datasette" where
  \<comment> \<open>a title at the global and the database scope, a source at the global and the table scope\<close>
  "ex_titles = \<lparr>self_metadata =
       fmupd ''title'' (JStr ''Global'')
        (fmupd ''source'' (JStr ''Everywhere'') (fmupd ''databases'' (JDict ex_dbs) fmempty)),
     self_max_returned_rows = 1000, self_sql_time_limit_ms = 1000, self_page_size = 100,
     self_databases = (\<lambda>name. None)\<rparr>"

definition ex_fk :: foreign_key where
  "ex_fk = \<lparr>fk_column = ''author_id'', fk_other_table = ''authors'', fk_other_column = ''id''\<rparr>"

definition books_db :: "string option \<Rightarrow> driver_error option \<Rightarrow> string database" where
  \<comment> \<open>a table \<^verbatim>\<open>books\<close> whose column \<^verbatim>\<open>author_id\<close> refers to \<^verbatim>\<open>authors\<close>; text values\<close>
  "books_db label err =
     \<lparr>conn = (\<lambda>limit sql params.
         \<lparr>available = [[''1'', ''Ann''], [''2'', ''Bob'']], failure = err,
          cursor_description = [''id'', ''name'']\<rparr>),
      foreign_keys_for_table = (\<lambda>t. if t = ''books'' then [ex_fk] else []),
      label_column_for_table = (\<lambda>t. label)\<rparr>"

definition ex_books :: "string option \<Rightarrow> driver_error option \<Rightarrow> string datasette" where
  "ex_books label err = \<lparr>self_metadata = fmempty, self_max_returned_rows = 1000,
     self_sql_time_limit_ms = 1000, self_page_size = 100,
     self_databases = (\<lambda>name. if name = ''db'' then Some (books_db label err) else None)\<rparr>"

section \<open>Auxiliary facts\<close>

lemma length_numbered_rows: "length (numbered_rows n) = n"
  by (simp add: numbered_rows_def)

lemma fetchmany_in_range:
  assumes "0 < n" and "n \<le> 2147483647"
  shows "fetchmany c n
     = (if nat n \<le> length (available c) then Inr (take (nat n) (available c)) else fetchall c)"
  using assms by (simp add: fetchmany_def)

lemma fetchmany_succeeds:
  assumes "0 < n" and "n \<le> 2147483647" and "failure c = None"
  shows "fetchmany c n = Inr (take (nat n) (available c))"
  using assms by (simp add: fetchmany_def fetchall_def)

lemma fetchmany_overflow: "2147483647 < n \<Longrightarrow> fetchmany c n = Inl OverflowError"
  by (simp add: fetchmany_def)

lemma execute_fetchmany_overflow:
  assumes "self_databases self db_name = Some db"
    and "self_max_returned_rows self = 2147483647"
    and "self_page_size self \<noteq> 2147483647"
  shows "execute self db_name sql params True custom_time_limit None
     = Inl (Raised OverflowError)"
  using assms
  by (simp add: execute_def Let_def sql_operation_in_thread_def fetch_rows_def bind_def
      max_returned_rows_def fetchmany_def)

lemma fmupd_not_empty: "fmupd k v m \<noteq> fmempty"
proof
  assume "fmupd k v m = fmempty"
  then have "fmlookup (fmupd k v m) k = fmlookup fmempty k" by simp
  then show False by simp
qed

lemma or_empty_scope: "scope_of v = Some m \<Longrightarrow> or_empty v = JDict m"
  by (cases v) (auto simp add: scope_of_def or_empty_def split: if_splits)

lemma lookup_key_dicts: "lookup_key key (map JDict ms) = Inr (first_defined key ms)"
  by (induction ms) (auto simp add: bind_def split: option.splits)

lemma search_list_global:
  "search_list self None None fallback = Inr [JDict (self_metadata self)]"
  by (simp add: search_list_def bind_def Let_def)

lemma search_list_database:
  assumes "scope_of (dict_get (self_metadata self) ''databases'') = Some dbs"
    and "scope_of (dict_get dbs d) = Some dbm"
  shows "search_list self (Some d) None fallback
     = Inr (if fallback then [JDict dbm, JDict (self_metadata self)] else [JDict dbm])"
  using or_empty_scope [OF assms(1)] or_empty_scope [OF assms(2)]
  by (simp add: search_list_def bind_def Let_def)

lemma search_list_table:
  assumes "scope_of (dict_get (self_metadata self) ''databases'') = Some dbs"
    and "scope_of (dict_get dbs d) = Some dbm"
    and "scope_of (dict_get dbm ''tables'') = Some tbls"
    and "scope_of (dict_get tbls t) = Some tm"
  shows "search_list self (Some d) (Some t) fallback
     = Inr (if fallback then [JDict tm, JDict dbm, JDict (self_metadata self)] else [JDict tm])"
  using or_empty_scope [OF assms(1)] or_empty_scope [OF assms(2)]
    or_empty_scope [OF assms(3)] or_empty_scope [OF assms(4)]
  by (simp add: search_list_def bind_def Let_def)

lemma ex_scopes:
  "scope_of (dict_get (self_metadata ex_titles) ''databases'') = Some ex_dbs"
  "scope_of (dict_get ex_dbs ''db'') = Some ex_db_md"
  "scope_of (dict_get ex_db_md ''tables'') = Some ex_tables"
  "scope_of (dict_get ex_tables ''t'') = Some ex_table_md"
  by (simp_all add: scope_of_def dict_get_def ex_titles_def ex_dbs_def ex_db_md_def ex_tables_def
      ex_table_md_def fmupd_not_empty)

lemma find_filter:
  "List.find P xs = Some y \<Longrightarrow> \<exists>ys. filter P xs = y # ys"
  by (induction xs) (auto split: if_splits)




section \<open>The time limit of a statement\<close>

text \<open>
  C5, as the specification states it: the effective limit is the minimum of the requested
  limit and the default whenever the request gives a limit. A request that gives the limit
  0 (as \<^verbatim>\<open>?_timelimit=0\<close> does) keeps the default of 1000 ms, which is not the minimum.
\<close>

theorem time_limit_zero_counterexample:
  "time_limit_ms ex_limits (Some 0) \<noteq> min 0 (self_sql_time_limit_ms ex_limits)"
  by (simp add: time_limit_ms_def ex_limits_def)

text \<open>
  C5, amended: the effective limit is the minimum of the requested limit and the default
  when the request gives a limit other than 0, and the default when it gives none; with
  the default 1000, the requests 500 and 2000 give 500 and 1000.
\<close>

theorem time_limit_min:
  "(c \<noteq> 0 \<longrightarrow> time_limit_ms self (Some c) = min c (self_sql_time_limit_ms self))
   \<and> time_limit_ms self None = self_sql_time_limit_ms self
   \<and> (self_sql_time_limit_ms self = 1000 \<longrightarrow>
        time_limit_ms self (Some 500) = 500 \<and> time_limit_ms self (Some 2000) = 1000)"
  by (simp add: time_limit_ms_def min_def)

theorem time_limit_min_witness:
  "(500::int) \<noteq> 0 \<and> self_sql_time_limit_ms ex_limits = 1000
   \<and> time_limit_ms ex_limits (Some 500) = min 500 (self_sql_time_limit_ms ex_limits)
   \<and> time_limit_ms ex_limits (Some 2000) = 1000"
  using time_limit_min [of 500 ex_limits] by (simp add: ex_limits_def)

text \<open>
  C10, as the specification states it: the minimum rule applies only to a custom limit that
  is positive, so that every other custom limit leaves the default in force. A custom limit
  of \<open>-5\<close> is truthy and below the default of 1000 ms, and it becomes the limit.
\<close>

theorem time_limit_negative_counterexample:
  "\<not> (0::int) < - 5
   \<and> time_limit_ms ex_limits (Some (- 5)) \<noteq> self_sql_time_limit_ms ex_limits"
  by (simp add: time_limit_ms_def ex_limits_def)

text \<open>
  C10, amended: a custom limit of 0 or \<^verbatim>\<open>None\<close> leaves the default in force, and so does a
  custom limit equal to the default; the limit differs from the default only for a custom
  limit that is not 0 (truthy) and below the default, and is then that custom limit.
\<close>

theorem time_limit_default_kept:
  "time_limit_ms self None = self_sql_time_limit_ms self
   \<and> time_limit_ms self (Some 0) = self_sql_time_limit_ms self
   \<and> time_limit_ms self (Some (self_sql_time_limit_ms self)) = self_sql_time_limit_ms self
   \<and> (time_limit_ms self c \<noteq> self_sql_time_limit_ms self \<longrightarrow>
        (\<exists>x. c = Some x \<and> x \<noteq> 0 \<and> time_limit_ms self c = x \<and> x < self_sql_time_limit_ms self))"
  by (auto simp add: time_limit_ms_def split: option.splits)

theorem time_limit_default_kept_witness:
  "time_limit_ms ex_limits (Some 500) \<noteq> self_sql_time_limit_ms ex_limits
   \<and> (\<exists>x. Some 500 = Some x \<and> x \<noteq> 0 \<and> time_limit_ms ex_limits (Some 500) = x
        \<and> x < self_sql_time_limit_ms ex_limits)"
proof -
  have h: "time_limit_ms ex_limits (Some 500) \<noteq> self_sql_time_limit_ms ex_limits"
    by (simp add: time_limit_ms_def ex_limits_def)
  with time_limit_default_kept [of ex_limits "Some 500"] show ?thesis by blast
qed

section \<open>The metadata cascade\<close>

text \<open>
  C9: a lookup with a table but no database fails at once with the assertion error,
  whatever the key, the metadata and the fallback flag.
\<close>

theorem metadata_table_without_database:
  "metadata self key None (Some t) fallback = Inl AssertionError"
  by (simp add: metadata_def)

section \<open>Truncation of results\<close>

text \<open>
  C1, as the specification states it: with \<^verbatim>\<open>max_returned_rows\<close> 10 and page size 10, a
  result set of exactly 11 rows comes back truncated, with 10 rows. The code returns all
  11 rows, not truncated.
\<close>

theorem execute_eleven_rows_counterexample:
  "execute (ex_ten 11 None) ''db'' ''select n from t'' None True None (Some 10)
     = Inr \<lparr>rows = numbered_rows 11, truncated = False, description = [''n'']\<rparr>
   \<and> length (numbered_rows 11) = 11"
  by (simp add: execute_def Let_def sql_operation_in_thread_def fetch_rows_def max_returned_rows_def
      fetchmany_def fetchall_def bind_def py_slice_to_def ex_ten_def counting_db_def
      length_numbered_rows)

text \<open>
  C1, amended: with \<^verbatim>\<open>max_returned_rows\<close> 10, page size 10 and truncation asked for, the
  cap is 11: a result set of exactly 12 rows returns its first 11 rows with
  \<^verbatim>\<open>truncated=True\<close>, and a result set of exactly 11 or exactly 10 rows returns all its
  rows with \<^verbatim>\<open>truncated=False\<close>.
\<close>

theorem execute_cap_equal_page_size:
  assumes "self_databases self db_name = Some db"
    and "cursor = conn db (time_limit_ms self custom_time_limit) sql (params_or_empty params)"
    and "self_max_returned_rows self = 10"
    and "failure cursor = None"
  shows "(length (available cursor) = 12 \<longrightarrow>
            execute self db_name sql params True custom_time_limit (Some 10)
              = Inr \<lparr>rows = take 11 (available cursor), truncated = True,
                     description = cursor_description cursor\<rparr>)
       \<and> (length (available cursor) = 11 \<or> length (available cursor) = 10 \<longrightarrow>
            execute self db_name sql params True custom_time_limit (Some 10)
              = Inr \<lparr>rows = available cursor, truncated = False,
                     description = cursor_description cursor\<rparr>)"
  using assms
  by (simp add: execute_def Let_def sql_operation_in_thread_def fetch_rows_def bind_def
      py_slice_to_def max_returned_rows_def fetchmany_def fetchall_def)

theorem execute_cap_equal_page_size_witness:
  "length (numbered_rows 12) = 12
   \<and> execute (ex_ten 12 None) ''db'' ''select n from t'' None True None (Some 10)
       = Inr \<lparr>rows = take 11 (numbered_rows 12), truncated = True, description = [''n'']\<rparr>
   \<and> length (numbered_rows 10) = 10
   \<and> execute (ex_ten 10 None) ''db'' ''select n from t'' None True None (Some 10)
       = Inr \<lparr>rows = numbered_rows 10, truncated = False, description = [''n'']\<rparr>"
proof -
  let ?c = "\<lambda>n. \<lparr>available = numbered_rows n, failure = None, cursor_description = [''n'']\<rparr>"
  have a: "self_databases (ex_ten n None) ''db'' = Some (counting_db n None)" for n
    by (simp add: ex_ten_def)
  have b: "?c n = conn (counting_db n None) (time_limit_ms (ex_ten n None) None) ''select n from t''
                  (params_or_empty None)" for n
    by (simp add: counting_db_def)
  have c: "self_max_returned_rows (ex_ten n None) = 10" for n
    by (simp add: ex_ten_def)
  have d: "failure (?c n) = None" for n
    by simp
  from execute_cap_equal_page_size [OF a [of 12] b [of 12] c [of 12] d [of 12]]
    execute_cap_equal_page_size [OF a [of 10] b [of 10] c [of 10] d [of 10]]
  show ?thesis by (simp add: length_numbered_rows)
qed

text \<open>
  C3: with truncation asked for and a positive \<^verbatim>\<open>max_returned_rows\<close>, the cap is
  \<^verbatim>\<open>max_returned_rows + 1\<close> when \<^verbatim>\<open>max_returned_rows\<close> equals the page size and
  \<^verbatim>\<open>max_returned_rows\<close> otherwise; \<^verbatim>\<open>fetchmany(cap + 1)\<close> fetches at most \<open>cap + 1\<close> rows,
  the first ones of the result set; \<^verbatim>\<open>truncated\<close> says whether more than \<open>cap\<close> rows were
  fetched; the rows returned are the first \<open>cap\<close> of those fetched. Without truncation
  every row is returned and \<^verbatim>\<open>truncated\<close> is false. (When \<open>cap + 1\<close> is beyond the
  driver's C \<^verbatim>\<open>int\<close>, \<^verbatim>\<open>fetchmany\<close> raises and there is no result: see
  \<open>execute_fetchmany_overflow\<close>.)
\<close>

theorem execute_truncation:
  assumes "self_databases self db_name = Some db"
    and "cursor = conn db (time_limit_ms self custom_time_limit) sql (params_or_empty params)"
    and "page_size' = (case page_size of None \<Rightarrow> self_page_size self
            | Some p \<Rightarrow> if p \<noteq> 0 then p else self_page_size self)"
    and "cap = (if self_max_returned_rows self = page_size'
                then self_max_returned_rows self + 1 else self_max_returned_rows self)"
  shows "(0 < self_max_returned_rows self \<and> fetchmany cursor (cap + 1) = Inr fetched \<longrightarrow>
            int (length fetched) \<le> cap + 1
          \<and> fetched = take (nat (cap + 1)) (available cursor)
          \<and> execute self db_name sql params True custom_time_limit page_size
              = Inr \<lparr>rows = take (nat cap) fetched, truncated = (cap < int (length fetched)),
                     description = cursor_description cursor\<rparr>)
       \<and> (fetchall cursor = Inr fetched \<longrightarrow>
            fetched = available cursor
          \<and> execute self db_name sql params False custom_time_limit page_size
              = Inr \<lparr>rows = fetched, truncated = False, description = cursor_description cursor\<rparr>)"
proof -
  have cap_eq: "cap = max_returned_rows self page_size'"
    using assms(4) by (simp add: max_returned_rows_def)
  have cap_pos: "0 < cap" if "0 < self_max_returned_rows self"
    using that assms(4) by simp
  have fm: "int (length fetched) \<le> cap + 1 \<and> fetched = take (nat (cap + 1)) (available cursor)"
    if "0 < cap" "fetchmany cursor (cap + 1) = Inr fetched"
    using that by (auto simp add: fetchmany_def fetchall_def split: if_splits option.splits)
  have ex_t: "execute self db_name sql params True custom_time_limit page_size
              = Inr \<lparr>rows = take (nat cap) fetched, truncated = (cap < int (length fetched)),
                     description = cursor_description cursor\<rparr>"
    if "0 < cap" "fetchmany cursor (cap + 1) = Inr fetched"
    using that assms(1-3) cap_eq
    by (simp add: execute_def Let_def sql_operation_in_thread_def fetch_rows_def bind_def
        py_slice_to_def)
  have ex_f: "execute self db_name sql params False custom_time_limit page_size
              = Inr \<lparr>rows = fetched, truncated = False, description = cursor_description cursor\<rparr>"
    if "fetchall cursor = Inr fetched"
    using that assms(1-3)
    by (simp add: execute_def Let_def sql_operation_in_thread_def fetch_rows_def bind_def)
  have fa: "fetched = available cursor" if "fetchall cursor = Inr fetched"
    using that by (auto simp add: fetchall_def split: option.splits)
  show ?thesis using cap_pos fm ex_t ex_f fa by blast
qed

theorem execute_truncation_witness:
  "0 < self_max_returned_rows (ex_ten 12 None)
   \<and> fetchmany \<lparr>available = numbered_rows 12, failure = None, cursor_description = [''n'']\<rparr> (11 + 1)
       = Inr (numbered_rows 12)
   \<and> execute (ex_ten 12 None) ''db'' ''select n from t'' None True None None
       = Inr \<lparr>rows = take 11 (numbered_rows 12), truncated = True, description = [''n'']\<rparr>
   \<and> execute (ex_ten 12 None) ''db'' ''select n from t'' None False None None
       = Inr \<lparr>rows = numbered_rows 12, truncated = False, description = [''n'']\<rparr>"
proof -
  let ?s = "ex_ten 12 None"
  let ?c = "\<lparr>available = numbered_rows 12, failure = None, cursor_description = [''n'']\<rparr>"
  have a: "self_databases ?s ''db'' = Some (counting_db 12 None)"
    by (simp add: ex_ten_def)
  have b: "?c = conn (counting_db 12 None) (time_limit_ms ?s None) ''select n from t''
                  (params_or_empty None)"
    by (simp add: counting_db_def)
  have c: "10 = (case None of None \<Rightarrow> self_page_size ?s
             | Some p \<Rightarrow> if p \<noteq> 0 then p else self_page_size ?s)"
    by (simp add: ex_ten_def)
  have d: "11 = (if self_max_returned_rows ?s = 10
                 then self_max_returned_rows ?s + 1 else self_max_returned_rows ?s)"
    by (simp add: ex_ten_def)
  have h1: "0 < self_max_returned_rows ?s"
    by (simp add: ex_ten_def)
  have h2: "fetchmany ?c (11 + 1) = Inr (numbered_rows 12)"
    by (simp add: fetchmany_def length_numbered_rows)
  have h3: "fetchall ?c = Inr (numbered_rows 12)"
    by (simp add: fetchall_def)
  from execute_truncation [OF a b c d, of "numbered_rows 12"] h1 h2 h3
  show ?thesis by (simp add: length_numbered_rows)
qed

section \<open>Operational errors\<close>

text \<open>
  C6: when the statement ends in an operational error of the driver, \<^verbatim>\<open>execute\<close> raises
  \<^verbatim>\<open>QueryInterrupted\<close> with that error, the SQL text and the parameters as given if the
  error's arguments are exactly \<^verbatim>\<open>("interrupted",)\<close>, and re-raises the same error
  otherwise; it raises \<^verbatim>\<open>QueryInterrupted\<close> in no other case.
\<close>

theorem execute_operational_error:
  assumes "self_databases self db_name = Some db"
    and "cursor = conn db (time_limit_ms self custom_time_limit) sql (params_or_empty params)"
    and "page_size' = (case page_size of None \<Rightarrow> self_page_size self
            | Some p \<Rightarrow> if p \<noteq> 0 then p else self_page_size self)"
    and "fetch_rows self cursor t page_size' = Inl (OperationalError args)"
  shows "execute self db_name sql params t custom_time_limit page_size
           = (if args = [''interrupted'']
              then Inl (QueryInterrupted (OperationalError args) sql params)
              else Inl (Raised (OperationalError args)))
       \<and> ((\<exists>e s p. execute self db_name sql params t custom_time_limit page_size
                      = Inl (QueryInterrupted e s p)) \<longleftrightarrow> args = [''interrupted''])"
  using assms
  by (simp add: execute_def Let_def sql_operation_in_thread_def)

theorem execute_operational_error_witness:
  "fetch_rows (ex_ten 3 (Some (OperationalError [''interrupted''])))
      \<lparr>available = numbered_rows 3, failure = Some (OperationalError [''interrupted'']),
       cursor_description = [''n'']\<rparr> True 10
     = Inl (OperationalError [''interrupted''])
   \<and> execute (ex_ten 3 (Some (OperationalError [''interrupted''])))
        ''db'' ''select n from t'' (Some (Positional [7])) True None None
     = Inl (QueryInterrupted (OperationalError [''interrupted'']) ''select n from t''
             (Some (Positional [7])))"
proof -
  let ?e = "Some (OperationalError [''interrupted''])"
  let ?s = "ex_ten 3 ?e"
  let ?c = "\<lparr>available = numbered_rows 3, failure = ?e, cursor_description = [''n'']\<rparr>"
  have a: "self_databases ?s ''db'' = Some (counting_db 3 ?e)"
    by (simp add: ex_ten_def)
  have b: "?c = conn (counting_db 3 ?e) (time_limit_ms ?s None) ''select n from t''
                  (params_or_empty (Some (Positional [7])))"
    by (simp add: counting_db_def)
  have c: "10 = (case None of None \<Rightarrow> self_page_size ?s
             | Some p \<Rightarrow> if p \<noteq> 0 then p else self_page_size ?s)"
    by (simp add: ex_ten_def)
  have d: "fetch_rows ?s ?c True 10 = Inl (OperationalError [''interrupted''])"
    by (simp add: fetch_rows_def max_returned_rows_def ex_ten_def fetchmany_def fetchall_def
        bind_def length_numbered_rows)
  from execute_operational_error [OF a b c d] d
  show ?thesis by simp
qed

section \<open>Keyed and merged lookups\<close>

text \<open>
  C4: on a metadata document whose scopes are dicts, a keyed lookup with fallback searches
  the table scope (when given), the database scope (when given) and the global scope, in
  this order, and the first scope defining the key gives the result; without fallback only
  the innermost scope given is consulted, so that a key absent from it gives \<^verbatim>\<open>None\<close>
  whatever the outer scopes define.
\<close>

theorem metadata_keyed_cascade:
  assumes "scope_of (dict_get (self_metadata self) ''databases'') = Some dbs"
    and "scope_of (dict_get dbs d) = Some dbm"
    and "scope_of (dict_get dbm ''tables'') = Some tbls"
    and "scope_of (dict_get tbls t) = Some tm"
  shows "metadata self (Some key) (Some d) (Some t) True
           = Inr (first_defined key [tm, dbm, self_metadata self])
       \<and> metadata self (Some key) (Some d) None True
           = Inr (first_defined key [dbm, self_metadata self])
       \<and> metadata self (Some key) None None True = Inr (first_defined key [self_metadata self])
       \<and> metadata self (Some key) (Some d) (Some t) False = Inr (first_defined key [tm])
       \<and> metadata self (Some key) (Some d) None False = Inr (first_defined key [dbm])
       \<and> metadata self (Some key) None None False = Inr (first_defined key [self_metadata self])
       \<and> (fmlookup tm key = None \<longrightarrow> metadata self (Some key) (Some d) (Some t) False = Inr JNull)"
proof -
  have t: "metadata self (Some key) (Some d) (Some t) fb
      = Inr (first_defined key (if fb then [tm, dbm, self_metadata self] else [tm]))" for fb
    using search_list_table [OF assms, of fb] lookup_key_dicts [of key "[tm, dbm, self_metadata self]"]
      lookup_key_dicts [of key "[tm]"]
    by (simp add: metadata_def bind_def del: lookup_key.simps first_defined.simps)
  have db: "metadata self (Some key) (Some d) None fb
      = Inr (first_defined key (if fb then [dbm, self_metadata self] else [dbm]))" for fb
    using search_list_database [OF assms(1,2), of fb] lookup_key_dicts [of key "[dbm, self_metadata self]"]
      lookup_key_dicts [of key "[dbm]"]
    by (simp add: metadata_def bind_def del: lookup_key.simps first_defined.simps)
  have g: "metadata self (Some key) None None fb = Inr (first_defined key [self_metadata self])" for fb
    using search_list_global [of self fb] lookup_key_dicts [of key "[self_metadata self]"]
    by (simp add: metadata_def bind_def del: lookup_key.simps first_defined.simps)
  show ?thesis
    using t [of True] t [of False] db [of True] db [of False] g [of True] g [of False]
    by simp
qed

theorem metadata_keyed_cascade_witness:
  "scope_of (dict_get (self_metadata ex_titles) ''databases'') = Some ex_dbs
   \<and> scope_of (dict_get ex_dbs ''db'') = Some ex_db_md
   \<and> scope_of (dict_get ex_db_md ''tables'') = Some ex_tables
   \<and> scope_of (dict_get ex_tables ''t'') = Some ex_table_md
   \<and> fmlookup ex_table_md ''title'' = None
   \<and> metadata ex_titles (Some ''title'') (Some ''db'') (Some ''t'') True = Inr (JStr ''DB'')
   \<and> metadata ex_titles (Some ''title'') (Some ''db'') (Some ''t'') False = Inr JNull
   \<and> metadata ex_titles (Some ''title'') None None True = Inr (JStr ''Global'')"
proof -
  have n: "fmlookup ex_table_md ''title'' = None"
    by (simp add: ex_table_md_def)
  have f: "first_defined ''title'' [ex_table_md, ex_db_md, self_metadata ex_titles] = JStr ''DB''"
    "first_defined ''title'' [self_metadata ex_titles] = JStr ''Global''"
    by (simp_all add: ex_table_md_def ex_db_md_def ex_titles_def)
  from metadata_keyed_cascade [OF ex_scopes, of "''title''"] n f ex_scopes
  show ?thesis by simp
qed

text \<open>
  C2 on the code: the merged view updates one dict with the scopes in search order,
  innermost first, so the global scope is applied last and overrides the database scope.
  For the title defined at both scopes, the merged view of the database gives the global
  title, while the keyed lookup of the same scopes gives the database's.
\<close>

theorem metadata_merged_outer_wins:
  "bind (metadata ex_titles None (Some ''db'') None True) (\<lambda>m. py_get m ''title'')
     = Inr (JStr ''Global'')
   \<and> metadata ex_titles (Some ''title'') (Some ''db'') None True = Inr (JStr ''DB'')"
proof -
  have s: "search_list ex_titles (Some ''db'') None True
      = Inr [JDict ex_db_md, JDict (self_metadata ex_titles)]"
    using search_list_database [OF ex_scopes(1,2), of True] by simp
  have m: "metadata ex_titles None (Some ''db'') None True
      = Inr (JDict (fmadd (fmadd fmempty ex_db_md) (self_metadata ex_titles)))"
    using s by (simp add: metadata_def bind_def)
  have a: "bind (metadata ex_titles None (Some ''db'') None True) (\<lambda>m. py_get m ''title'')
     = Inr (JStr ''Global'')"
    unfolding m by (simp add: bind_def dict_get_def ex_titles_def)
  have b: "metadata ex_titles (Some ''title'') (Some ''db'') None True = Inr (JStr ''DB'')"
    using s by (simp add: metadata_def bind_def ex_db_md_def)
  from a b show ?thesis by simp
qed

section \<open>Labels of foreign keys\<close>



text \<open>
  C7: when the column has a foreign key and the referenced table a label column, the one
  query of the call decides: if it raises \<^verbatim>\<open>QueryInterrupted\<close> the result is the empty
  mapping, and any other exception it raises is the exception of the call.
\<close>

theorem expand_foreign_keys_interrupted:
  assumes "self_databases self database = Some db"
    and "List.find (\<lambda>fk. fk_column fk = column) (foreign_keys_for_table db table) = Some fk"
    and "label_column_for_table db (fk_other_table fk) = Some label_column"
    and "label_column \<noteq> []"
    and "batch = execute self database
                   (label_sql escape_sqlite fk label_column (length (remdups values)))
                   (Some (Positional (remdups values))) False None None"
  shows "((\<exists>e s p. batch = Inl (QueryInterrupted e s p)) \<longrightarrow>
            expand_foreign_keys self str escape_sqlite database table column values
              = Inr Map.empty)
       \<and> (\<forall>err. batch = Inl err \<and> (\<forall>e s p. err \<noteq> QueryInterrupted e s p) \<longrightarrow>
            expand_foreign_keys self str escape_sqlite database table column values = Inl err)"
proof -
  obtain fks where f: "filter (\<lambda>fk. fk_column fk = column) (foreign_keys_for_table db table)
      = fk # fks"
    using assms(2) find_filter by fastforce
  have u: "expand_foreign_keys self str escape_sqlite database table column values
      = (case batch of
           Inl (QueryInterrupted e s p) \<Rightarrow> Inr Map.empty
         | Inl err \<Rightarrow> Inl err
         | Inr results \<Rightarrow> label_rows (fk_column fk) (rows results) Map.empty)"
    using assms f by (simp add: expand_foreign_keys_def)
  show ?thesis
    unfolding u by (auto split: sum.splits exec_error.splits)
qed

theorem expand_foreign_keys_interrupted_witness:
  "(\<exists>e s p. execute (ex_books (Some ''name'') (Some (OperationalError [''interrupted''])))
       ''db'' (label_sql (\<lambda>s. s) ex_fk ''name'' (length (remdups [''1'', ''2'', ''1''])))
       (Some (Positional (remdups [''1'', ''2'', ''1'']))) False None None
     = Inl (QueryInterrupted e s p))
   \<and> expand_foreign_keys (ex_books (Some ''name'') (Some (OperationalError [''interrupted''])))
        (\<lambda>s. s) (\<lambda>s. s) ''db'' ''books'' ''author_id'' [''1'', ''2'', ''1''] = Inr Map.empty
   \<and> execute (ex_books (Some ''name'') (Some (OperationalError [''no such table: authors''])))
       ''db'' (label_sql (\<lambda>s. s) ex_fk ''name'' (length (remdups [''1'', ''2'', ''1''])))
       (Some (Positional (remdups [''1'', ''2'', ''1'']))) False None None
     = Inl (Raised (OperationalError [''no such table: authors'']))
   \<and> expand_foreign_keys (ex_books (Some ''name'') (Some (OperationalError [''no such table: authors''])))
        (\<lambda>s. s) (\<lambda>s. s) ''db'' ''books'' ''author_id'' [''1'', ''2'', ''1'']
     = Inl (Raised (OperationalError [''no such table: authors'']))"
proof -
  let ?q = "label_sql (\<lambda>s. s) ex_fk ''name'' (length (remdups [''1'', ''2'', ''1'']))"
  let ?p = "Some (Positional (remdups [''1'', ''2'', ''1'']))"
  have a: "self_databases (ex_books (Some ''name'') err) ''db'' = Some (books_db (Some ''name'') err)"
    for err
    by (simp add: ex_books_def)
  have b: "List.find (\<lambda>fk. fk_column fk = ''author_id'')
             (foreign_keys_for_table (books_db (Some ''name'') err) ''books'') = Some ex_fk" for err
    by (simp add: books_db_def ex_fk_def)
  have c: "label_column_for_table (books_db (Some ''name'') err) (fk_other_table ex_fk)
      = Some ''name''" for err
    by (simp add: books_db_def)
  have d: "''name'' \<noteq> []"
    by simp
  have i: "\<exists>e s p. execute (ex_books (Some ''name'') (Some (OperationalError [''interrupted''])))
       ''db'' ?q ?p False None None = Inl (QueryInterrupted e s p)"
    by (simp add: execute_def Let_def sql_operation_in_thread_def fetch_rows_def fetchall_def
        bind_def ex_books_def books_db_def)
  have r: "execute (ex_books (Some ''name'') (Some (OperationalError [''no such table: authors''])))
       ''db'' ?q ?p False None None = Inl (Raised (OperationalError [''no such table: authors'']))"
    by (simp add: execute_def Let_def sql_operation_in_thread_def fetch_rows_def fetchall_def
        bind_def ex_books_def books_db_def)
  let ?i = "Some (OperationalError [''interrupted''])"
  let ?n = "Some (OperationalError [''no such table: authors''])"
  from expand_foreign_keys_interrupted [OF a [of ?i] b [of ?i] c [of ?i] d refl,
      of "\<lambda>s. s" "[''1'', ''2'', ''1'']" "\<lambda>s. s"] i
  have x: "expand_foreign_keys (ex_books (Some ''name'') (Some (OperationalError [''interrupted''])))
        (\<lambda>s. s) (\<lambda>s. s) ''db'' ''books'' ''author_id'' [''1'', ''2'', ''1''] = Inr Map.empty"
    by blast
  from expand_foreign_keys_interrupted [OF a [of ?n] b [of ?n] c [of ?n] d refl,
      of "\<lambda>s. s" "[''1'', ''2'', ''1'']" "\<lambda>s. s"] r
  have y: "expand_foreign_keys (ex_books (Some ''name'') (Some (OperationalError [''no such table: authors''])))
        (\<lambda>s. s) (\<lambda>s. s) ''db'' ''books'' ''author_id'' [''1'', ''2'', ''1'']
     = Inl (Raised (OperationalError [''no such table: authors'']))"
    by blast
  from i x r y show ?thesis by blast
qed

text \<open>The labelled path on a query that succeeds: every row gives one label.\<close>

lemma expand_labelled_example:
  "expand_foreign_keys (ex_books (Some ''name'') None)
        (\<lambda>s. s) (\<lambda>s. s) ''db'' ''books'' ''author_id'' [''1'', ''2'', ''1'']
     = Inr [(''author_id'', ''1'') \<mapsto> ''Ann'', (''author_id'', ''2'') \<mapsto> ''Bob'']"
  by (simp add: expand_foreign_keys_def execute_def Let_def sql_operation_in_thread_def
      fetch_rows_def fetchall_def bind_def ex_books_def books_db_def ex_fk_def)


end
